theory Spec2Isabelle
  imports Main "HOL-Library.Sublist" "HOL-Library.AList"
begin

section \<open>Email preferences (src/src/email_preferences.py)\<close>

text \<open>
  The two enumerations of the module. Both have a member called \<open>WEEKLY_DIGEST\<close>; the
  member of \<open>EmailFrequency\<close> carries the suffix \<open>_frequency\<close> here.
\<close>

datatype EmailFrequency = IMMEDIATE | DAILY_DIGEST | WEEKLY_DIGEST_frequency | DISABLED

datatype NotificationCategory =
    SIGNUP_CONFIRMATION
  | UNREGISTER_CONFIRMATION
  | ACTIVITY_CHANGES
  | REMINDERS
  | WEEKLY_DIGEST
  | NEW_ACTIVITIES
  | ATTENDANCE

text \<open>An instance of \<open>Exception\<close>; the string is what \<open>str(e)\<close> gives.\<close>

datatype exn = Exception string

fun str_exn :: "exn \<Rightarrow> string" where
  "str_exn (Exception msg) = msg"

text \<open>The pydantic model \<open>EmailPreferences\<close>, field by field.\<close>

record EmailPreferences =
  email :: string
  enabled :: bool
  frequency :: EmailFrequency
  signup_confirmation :: bool
  unregister_confirmation :: bool
  activity_changes :: bool
  reminders :: bool
  weekly_digest :: bool
  new_activities :: bool
  attendance :: bool
  parent_email :: "string option"
  parent_cc_enabled :: bool
  digest_only :: bool

text \<open>
  The field \<open>email\<close> has the type \<open>EmailStr\<close> of pydantic, and the constructor of the
  model validates it: given a string that is no address it raises \<open>ValidationError\<close>, and
  given an address it keeps the address in its normal form. The validation is a parameter
  of the model, a function that raises (\<open>Inl\<close>) or returns the normal form (\<open>Inr\<close>).
\<close>

type_synonym validator = "string \<Rightarrow> exn + string"

text \<open>The record with the declared default of every field but \<open>email\<close>.\<close>

definition EmailPreferences_defaults :: "string \<Rightarrow> EmailPreferences" where
  "EmailPreferences_defaults addr =
     \<lparr> email = addr,
       enabled = True,
       frequency = IMMEDIATE,
       signup_confirmation = True,
       unregister_confirmation = True,
       activity_changes = True,
       reminders = True,
       weekly_digest = True,
       new_activities = True,
       attendance = True,
       parent_email = None,
       parent_cc_enabled = False,
       digest_only = False \<rparr>"

text \<open>\<open>EmailPreferences(email=email)\<close>.\<close>

definition EmailPreferences_init :: "validator \<Rightarrow> string \<Rightarrow> exn + EmailPreferences" where
  "EmailPreferences_init EmailStr addr =
     (case EmailStr addr of
        Inl e \<Rightarrow> Inl e
      | Inr normalized \<Rightarrow> Inr (EmailPreferences_defaults normalized))"

text \<open>
  The module-level dictionary \<open>user_preferences\<close>. Every function of the module takes
  the dictionary and returns it beside its result, as the function left it; the result is
  an exception when the function raises.
\<close>

type_synonym store = "string \<rightharpoonup> EmailPreferences"

definition get_user_preferences ::
  "validator \<Rightarrow> store \<Rightarrow> string \<Rightarrow> (exn + EmailPreferences) \<times> store" where
  "get_user_preferences EmailStr user_preferences addr =
     (case user_preferences addr of
        None \<Rightarrow>
          (case EmailPreferences_init EmailStr addr of
             Inl e \<Rightarrow> (Inl e, user_preferences)
           | Inr prefs \<Rightarrow> (Inr prefs, user_preferences(addr \<mapsto> prefs)))
      | Some prefs \<Rightarrow> (Inr prefs, user_preferences))"

definition update_user_preferences ::
  "store \<Rightarrow> string \<Rightarrow> EmailPreferences \<Rightarrow> EmailPreferences \<times> store" where
  "update_user_preferences user_preferences addr preferences =
     (preferences, user_preferences(addr \<mapsto> preferences))"

text \<open>The dictionary literal \<open>category_map\<close> of \<open>should_send_email\<close>, in its order.\<close>

definition category_map :: "EmailPreferences \<Rightarrow> (NotificationCategory \<times> bool) list" where
  "category_map prefs =
     [ (SIGNUP_CONFIRMATION, signup_confirmation prefs),
       (UNREGISTER_CONFIRMATION, unregister_confirmation prefs),
       (ACTIVITY_CHANGES, activity_changes prefs),
       (REMINDERS, reminders prefs),
       (WEEKLY_DIGEST, weekly_digest prefs),
       (NEW_ACTIVITIES, new_activities prefs),
       (ATTENDANCE, attendance prefs) ]"

definition should_send_email ::
  "validator \<Rightarrow> store \<Rightarrow> string \<Rightarrow> NotificationCategory \<Rightarrow> (exn + bool) \<times> store" where
  "should_send_email EmailStr user_preferences addr category =
     (case get_user_preferences EmailStr user_preferences addr of
        (Inl e, user_preferences') \<Rightarrow> (Inl e, user_preferences')
      | (Inr prefs, user_preferences') \<Rightarrow>
          if \<not> enabled prefs \<or> frequency prefs = DISABLED
          then (Inr False, user_preferences')
          else if digest_only prefs \<and> category \<noteq> WEEKLY_DIGEST
          then (Inr False, user_preferences')
          else (case map_of (category_map prefs) category of
                  Some flag \<Rightarrow> (Inr flag, user_preferences')
                | None \<Rightarrow> (Inr True, user_preferences')))"

text \<open>
  \<open>if prefs.parent_cc_enabled and prefs.parent_email\<close>: the second operand is tested for
  truth, and both \<open>None\<close> and the empty string are false in Python.
\<close>

definition get_parent_email ::
  "validator \<Rightarrow> store \<Rightarrow> string \<Rightarrow> (exn + string option) \<times> store" where
  "get_parent_email EmailStr user_preferences addr =
     (case get_user_preferences EmailStr user_preferences addr of
        (Inl e, user_preferences') \<Rightarrow> (Inl e, user_preferences')
      | (Inr prefs, user_preferences') \<Rightarrow>
          if parent_cc_enabled prefs \<and> parent_email prefs \<noteq> None \<and> parent_email prefs \<noteq> Some []
          then (Inr (parent_email prefs), user_preferences')
          else (Inr None, user_preferences'))"

definition get_all_preferences :: "store \<Rightarrow> store \<times> store" where
  "get_all_preferences user_preferences = (user_preferences, user_preferences)"

definition delete_user_preferences :: "store \<Rightarrow> string \<Rightarrow> bool \<times> store" where
  "delete_user_preferences user_preferences addr =
     (if user_preferences addr \<noteq> None
      then (True, user_preferences(addr := None))
      else (False, user_preferences))"

text \<open>
  The comprehension that opens both broadcast tasks of src/src/celery_tasks.py,
  \<open>[email for email in recipients if should_send_email(email, category)]\<close>:
  the recipients are visited from left to right, every call of \<open>should_send_email\<close> sees
  the dictionary as the calls before it left it, and the first call that raises ends the
  comprehension with no list.
\<close>

fun filtered_recipients ::
  "validator \<Rightarrow> store \<Rightarrow> string list \<Rightarrow> NotificationCategory
     \<Rightarrow> (exn + string list) \<times> store" where
  "filtered_recipients EmailStr user_preferences [] category = (Inr [], user_preferences)"
| "filtered_recipients EmailStr user_preferences (addr # recipients) category =
     (case should_send_email EmailStr user_preferences addr category of
        (Inl e, user_preferences') \<Rightarrow> (Inl e, user_preferences')
      | (Inr keep, user_preferences') \<Rightarrow>
          (case filtered_recipients EmailStr user_preferences' recipients category of
             (Inl e, user_preferences'') \<Rightarrow> (Inl e, user_preferences'')
           | (Inr rest, user_preferences'') \<Rightarrow>
               (Inr (if keep then addr # rest else rest), user_preferences'')))"

section \<open>The email service (src/src/email_service.py)\<close>

text \<open>
  Python values that travel in a template context or in a task result, and dictionaries
  with string keys in insertion order. \<open>d[k] = v\<close> is \<open>AList.update k v d\<close>: the value
  is replaced where the key stands, or the pair is added at the end.
\<close>

datatype pyval = PyNone | PyBool bool | PyInt int | PyStr string

type_synonym pydict = "(string \<times> pyval) list"

text \<open>
  \<open>MessageSchema\<close> of fastapi_mail, with the four fields \<open>send_email\<close> fills in
  (\<open>subtype\<close> is always \<open>MessageType.html\<close>).
\<close>

record MessageSchema =
  msg_subject :: string
  msg_recipients :: "string list"
  msg_body :: string
  msg_cc :: "string list option"

text \<open>
  What \<open>send_email\<close> calls outside the repository is a parameter of the model: a
  template is its \<open>render\<close> method, \<open>jinja_get_template\<close> is
  \<open>jinja_env.get_template\<close>, \<open>MessageSchema_init\<close> is the validating constructor of
  the message and \<open>mail_send_message\<close> is \<open>self.mail.send_message\<close>. Each of them
  either raises (\<open>Inl\<close>) or returns (\<open>Inr\<close>). \<open>self_enabled\<close> is \<open>self.enabled\<close>, set
  from \<open>is_email_enabled()\<close> when the service is created.
\<close>

type_synonym template = "pydict \<Rightarrow> exn + string"

record EmailService =
  self_enabled :: bool
  jinja_get_template :: "string \<Rightarrow> exn + template"
  MessageSchema_init :: "MessageSchema \<Rightarrow> exn + MessageSchema"
  mail_send_message :: "MessageSchema \<Rightarrow> exn + unit"

text \<open>Python's truth test on an optional string: \<open>None\<close> and \<open>""\<close> are false.\<close>

definition truthy :: "string option \<Rightarrow> bool" where
  "truthy x = (x \<noteq> None \<and> x \<noteq> Some [])"

text \<open>
  \<open>is_email_enabled\<close> of src/src/email_config.py, on the values \<open>os.getenv\<close> gives for
  \<open>MAIL_USERNAME\<close> and \<open>MAIL_PASSWORD\<close>, and the constructor of the service, which
  stores that answer in \<open>self.enabled\<close>.
\<close>

definition is_email_enabled :: "string option \<Rightarrow> string option \<Rightarrow> bool" where
  "is_email_enabled username password = (truthy username \<and> truthy password)"

definition EmailService_init ::
  "string option \<Rightarrow> string option \<Rightarrow> (string \<Rightarrow> exn + template)
     \<Rightarrow> (MessageSchema \<Rightarrow> exn + MessageSchema) \<Rightarrow> (MessageSchema \<Rightarrow> exn + unit)
     \<Rightarrow> EmailService" where
  "EmailService_init username password get_tmpl mk_message send_msg =
     \<lparr> self_enabled = is_email_enabled username password,
       jinja_get_template = get_tmpl,
       MessageSchema_init = mk_message,
       mail_send_message = send_msg \<rparr>"

text \<open>
  Every call that leaves the service is recorded, in order: the log lines of
  \<open>send_email\<close> and its calls of the template engine and of the mail transport.
\<close>

datatype event =
    Logger_info_disabled "string list" string
  | Logger_info_sent "string list" string
  | Logger_error_failed "string list" string
  | Get_template string
  | Render pydict
  | Send_message MessageSchema

text \<open>The body of the \<open>try\<close> statement of \<open>send_email\<close>: it stops at the first raise.\<close>

definition send_email_try ::
  "EmailService \<Rightarrow> string list \<Rightarrow> string \<Rightarrow> string \<Rightarrow> pydict \<Rightarrow> string list option
     \<Rightarrow> event list \<Rightarrow> (exn + bool) \<times> event list" where
  "send_email_try self recipients subject template_name context cc evs =
     (let evs1 = evs @ [Get_template (template_name @ ''.html'')] in
      case jinja_get_template self (template_name @ ''.html'') of
        Inl e \<Rightarrow> (Inl e, evs1)
      | Inr template \<Rightarrow>
          (let context' = AList.update ''subject'' (PyStr subject) context;
               evs2 = evs1 @ [Render context'] in
           case template context' of
             Inl e \<Rightarrow> (Inl e, evs2)
           | Inr html_content \<Rightarrow>
               (case MessageSchema_init self
                       \<lparr> msg_subject = subject, msg_recipients = recipients,
                         msg_body = html_content, msg_cc = cc \<rparr> of
                  Inl e \<Rightarrow> (Inl e, evs2)
                | Inr message \<Rightarrow>
                    (let evs3 = evs2 @ [Send_message message] in
                     case mail_send_message self message of
                       Inl e \<Rightarrow> (Inl e, evs3)
                     | Inr _ \<Rightarrow> (Inr True, evs3 @ [Logger_info_sent recipients subject])))))"

text \<open>
  \<open>send_email\<close>: the guard on \<open>self.enabled\<close>, then the \<open>try\<close> statement with its
  handler \<open>except Exception\<close>. The function returns a truth value on every path.
\<close>

definition send_email ::
  "EmailService \<Rightarrow> string list \<Rightarrow> string \<Rightarrow> string \<Rightarrow> pydict \<Rightarrow> string list option
     \<Rightarrow> event list \<Rightarrow> bool \<times> event list" where
  "send_email self recipients subject template_name context cc evs =
     (if \<not> self_enabled self
      then (False, evs @ [Logger_info_disabled recipients subject])
      else (case send_email_try self recipients subject template_name context cc evs of
              (Inr sent, evs') \<Rightarrow> (sent, evs')
            | (Inl e, evs') \<Rightarrow> (False, evs' @ [Logger_error_failed recipients (str_exn e)])))"

text \<open>An optional string as a context value.\<close>

definition py_opt_str :: "string option \<Rightarrow> pyval" where
  "py_opt_str x = (case x of None \<Rightarrow> PyNone | Some v \<Rightarrow> PyStr v)"

definition send_signup_confirmation ::
  "EmailService \<Rightarrow> string \<Rightarrow> string \<Rightarrow> string \<Rightarrow> string \<Rightarrow> string option \<Rightarrow> string option
     \<Rightarrow> event list \<Rightarrow> bool \<times> event list" where
  "send_signup_confirmation self student_email activity_name schedule description
       student_name parent evs =
     (let context = [ (''student_name'', py_opt_str student_name),
                      (''activity_name'', PyStr activity_name),
                      (''schedule'', PyStr schedule),
                      (''description'', PyStr description) ];
          recipients = [student_email];
          cc = (if truthy parent then map_option (\<lambda>a. [a]) parent else None)
      in send_email self recipients (''Confirmed: '' @ activity_name @ '' Registration'')
           ''signup_confirmation'' context cc evs)"

definition send_activity_change_notification ::
  "EmailService \<Rightarrow> string list \<Rightarrow> string \<Rightarrow> string \<Rightarrow> string option \<Rightarrow> string option
     \<Rightarrow> event list \<Rightarrow> bool \<times> event list" where
  "send_activity_change_notification self recipients activity_name change_description
       new_schedule student_name evs =
     (let context = [ (''student_name'', py_opt_str student_name),
                      (''activity_name'', PyStr activity_name),
                      (''change_description'', PyStr change_description),
                      (''new_schedule'', py_opt_str new_schedule) ]
      in send_email self recipients (''Important Update: '' @ activity_name)
           ''activity_change'' context None evs)"

definition send_new_activity_announcement ::
  "EmailService \<Rightarrow> string list \<Rightarrow> string \<Rightarrow> string \<Rightarrow> string \<Rightarrow> int \<Rightarrow> string \<Rightarrow> string option
     \<Rightarrow> event list \<Rightarrow> bool \<times> event list" where
  "send_new_activity_announcement self recipients activity_name schedule description
       max_participants portal_url student_name evs =
     (let context = [ (''student_name'', py_opt_str student_name),
                      (''activity_name'', PyStr activity_name),
                      (''schedule'', PyStr schedule),
                      (''description'', PyStr description),
                      (''max_participants'', PyInt max_participants),
                      (''portal_url'', PyStr portal_url) ]
      in send_email self recipients (''New Activity Available: '' @ activity_name)
           ''new_activity'' context None evs)"

section \<open>The background tasks (src/src/celery_tasks.py)\<close>

text \<open>
  A task runs in the worker against the preference dictionary and the email service;
  \<open>run_async\<close> runs the coroutine of the service to its end and hands back its result.
  A task returns a dictionary, or raises what a read of the preferences raises.
\<close>

record worker_state =
  preferences :: store
  events :: "event list"

definition send_signup_confirmation_task ::
  "validator \<Rightarrow> EmailService \<Rightarrow> worker_state \<Rightarrow> string \<Rightarrow> string \<Rightarrow> string \<Rightarrow> string
     \<Rightarrow> string option \<Rightarrow> (exn + pydict) \<times> worker_state" where
  "send_signup_confirmation_task EmailStr email_service w student_email activity_name schedule
       description student_name =
     (case should_send_email EmailStr (preferences w) student_email SIGNUP_CONFIRMATION of
        (Inl e, store1) \<Rightarrow> (Inl e, w\<lparr>preferences := store1\<rparr>)
      | (Inr send, store1) \<Rightarrow>
          if \<not> send
          then (Inr [(''status'', PyStr ''skipped''), (''reason'', PyStr ''user preferences'')],
                w\<lparr>preferences := store1\<rparr>)
          else (case get_parent_email EmailStr store1 student_email of
                  (Inl e, store2) \<Rightarrow> (Inl e, w\<lparr>preferences := store2\<rparr>)
                | (Inr parent, store2) \<Rightarrow>
                    (case send_signup_confirmation email_service student_email activity_name
                            schedule description student_name parent (events w) of
                       (result, evs) \<Rightarrow>
                         (Inr [(''status'', PyStr (if result then ''sent'' else ''failed''))],
                          \<lparr>preferences = store2, events = evs\<rparr>))))"

definition send_activity_change_task ::
  "validator \<Rightarrow> EmailService \<Rightarrow> worker_state \<Rightarrow> string list \<Rightarrow> string \<Rightarrow> string
     \<Rightarrow> string option \<Rightarrow> (exn + pydict) \<times> worker_state" where
  "send_activity_change_task EmailStr email_service w recipients activity_name
       change_description new_schedule =
     (case filtered_recipients EmailStr (preferences w) recipients ACTIVITY_CHANGES of
        (Inl e, store1) \<Rightarrow> (Inl e, w\<lparr>preferences := store1\<rparr>)
      | (Inr filtered, store1) \<Rightarrow>
          if filtered = []
          then (Inr [(''status'', PyStr ''skipped''),
                     (''reason'', PyStr ''no recipients with enabled preferences'')],
                w\<lparr>preferences := store1\<rparr>)
          else (case send_activity_change_notification email_service filtered activity_name
                       change_description new_schedule None (events w) of
                  (result, evs) \<Rightarrow>
                    (Inr [(''status'', PyStr (if result then ''sent'' else ''failed'')),
                          (''recipients'', PyInt (int (length filtered)))],
                     \<lparr>preferences = store1, events = evs\<rparr>)))"

definition send_new_activity_announcement_task ::
  "validator \<Rightarrow> EmailService \<Rightarrow> worker_state \<Rightarrow> string list \<Rightarrow> string \<Rightarrow> string \<Rightarrow> string
     \<Rightarrow> int \<Rightarrow> string \<Rightarrow> (exn + pydict) \<times> worker_state" where
  "send_new_activity_announcement_task EmailStr email_service w recipients activity_name
       schedule description max_participants portal_url =
     (case filtered_recipients EmailStr (preferences w) recipients NEW_ACTIVITIES of
        (Inl e, store1) \<Rightarrow> (Inl e, w\<lparr>preferences := store1\<rparr>)
      | (Inr filtered, store1) \<Rightarrow>
          if filtered = []
          then (Inr [(''status'', PyStr ''skipped''),
                     (''reason'', PyStr ''no recipients with enabled preferences'')],
                w\<lparr>preferences := store1\<rparr>)
          else (case send_new_activity_announcement email_service filtered activity_name
                       schedule description max_participants portal_url None (events w) of
                  (result, evs) \<Rightarrow>
                    (Inr [(''status'', PyStr (if result then ''sent'' else ''failed'')),
                          (''recipients'', PyInt (int (length filtered)))],
                     \<lparr>preferences = store1, events = evs\<rparr>)))"

section \<open>The endpoints (src/src/app.py)\<close>

text \<open>
  \<open>task.delay(...)\<close> hands a call of a task to the Celery broker. The broker either raises
  (it holds the exception it raises with) or adds the call to its queue. The application
  also holds the dictionary \<open>activities\<close>; an entry of it is a record of its four keys.
\<close>

datatype celery_call =
    Send_signup_confirmation_task string string string string
  | Send_batch_emails_task "string list" string string pydict

record activity =
  act_description :: string
  act_schedule :: string
  act_max_participants :: int
  act_participants :: "string list"

record app_state =
  activities :: "string \<rightharpoonup> activity"
  broker_failure :: "exn option"
  queue :: "celery_call list"
  warnings :: "string list"

definition delay :: "app_state \<Rightarrow> celery_call \<Rightarrow> exn + app_state" where
  "delay st call =
     (case broker_failure st of
        Some e \<Rightarrow> Inl e
      | None \<Rightarrow> Inr (st\<lparr>queue := queue st @ [call]\<rparr>))"

datatype HTTPException = HTTPException nat string

text \<open>\<open>str(n)\<close> for a length: decimal digits.\<close>

fun str_nat :: "nat \<Rightarrow> string" where
  "str_nat n =
     (if n < 10 then [''0123456789'' ! n]
      else str_nat (n div 10) @ [''0123456789'' ! (n mod 10)])"

declare str_nat.simps [simp del]

definition send_batch_announcement ::
  "app_state \<Rightarrow> string list \<Rightarrow> string \<Rightarrow> string \<Rightarrow> pydict
     \<Rightarrow> (HTTPException + pydict) \<times> app_state" where
  "send_batch_announcement st recipients subject template_name context =
     (if recipients = []
      then (Inl (HTTPException 400 ''No recipients specified''), st)
      else (case delay st (Send_batch_emails_task recipients subject template_name context) of
              Inl e \<Rightarrow>
                (Inr [ (''message'', PyStr ''Could not queue batch emails (task queue unavailable)''),
                       (''recipients_count'', PyInt (int (length recipients))),
                       (''warning'', PyStr ''Email service may not be available'') ],
                 st\<lparr>warnings := warnings st @ [''Failed to queue batch emails: '' @ str_exn e]\<rparr>)
            | Inr st' \<Rightarrow>
                (Inr [ (''message'', PyStr (''Batch emails queued for ''
                                            @ str_nat (length recipients) @ '' recipients'')),
                       (''recipients_count'', PyInt (int (length recipients))) ],
                 st')))"

text \<open>
  \<open>signup_for_activity\<close>: the two validations, the new participant, then the call of
  \<open>send_signup_confirmation_task.delay\<close> inside its \<open>try\<close> statement. No preference is read.
\<close>

definition signup_for_activity ::
  "app_state \<Rightarrow> string \<Rightarrow> string \<Rightarrow> (HTTPException + pydict) \<times> app_state" where
  "signup_for_activity st activity_name addr =
     (case activities st activity_name of
        None \<Rightarrow> (Inl (HTTPException 404 ''Activity not found''), st)
      | Some act \<Rightarrow>
          if addr \<in> set (act_participants act)
          then (Inl (HTTPException 400 ''Student is already signed up''), st)
          else
            (let act' = act\<lparr>act_participants := act_participants act @ [addr]\<rparr>;
                 st1 = st\<lparr>activities := (activities st)(activity_name \<mapsto> act')\<rparr>;
                 response = [(''message'',
                              PyStr (''Signed up '' @ addr @ '' for '' @ activity_name))]
             in case delay st1 (Send_signup_confirmation_task addr activity_name
                                  (act_schedule act') (act_description act')) of
                  Inl e \<Rightarrow>
                    (Inr response,
                     st1\<lparr>warnings := warnings st1
                            @ [''Failed to queue confirmation email: '' @ str_exn e]\<rparr>)
                | Inr st2 \<Rightarrow> (Inr response, st2)))"

section \<open>Sample data\<close>

text \<open>
  Concrete records, services and states on which the theorems below are run.
  \<open>sample_EmailStr\<close> stands for the validation on the strings of the examples: a string
  with no \<open>@\<close> is refused, the domain of \<open>A@X.EDU\<close> is put in lower case, and the other
  addresses used below are kept as written.
\<close>

definition sample_EmailStr :: validator where
  "sample_EmailStr addr =
     (if CHR ''@'' \<notin> set addr then Inl (Exception ''value is not a valid email address'')
      else if addr = ''A@X.EDU'' then Inr ''A@x.edu''
      else Inr addr)"

definition no_preferences :: store where
  "no_preferences = Map.empty"

definition no_signup_mail :: EmailPreferences where
  "no_signup_mail = (EmailPreferences_defaults ''d@x.edu'')\<lparr>signup_confirmation := False\<rparr>"

definition switched_off :: EmailPreferences where
  "switched_off = (EmailPreferences_defaults ''off@x.edu'')\<lparr>enabled := False\<rparr>"

definition never_send :: EmailPreferences where
  "never_send = (EmailPreferences_defaults ''q@x.edu'')\<lparr>frequency := DISABLED\<rparr>"

definition digest_reader :: EmailPreferences where
  "digest_reader = (EmailPreferences_defaults ''digest@mergington.edu'')\<lparr>digest_only := True\<rparr>"

definition with_parent :: EmailPreferences where
  "with_parent =
     (EmailPreferences_defaults ''b@x.edu'')
       \<lparr>reminders := False, parent_email := Some ''p@x.edu'', parent_cc_enabled := True\<rparr>"


definition parent_store :: store where
  "parent_store = [''b@x.edu'' \<mapsto> with_parent]"

definition opted_out_store :: store where
  "opted_out_store = [''b@x.edu'' \<mapsto> with_parent, ''d@x.edu'' \<mapsto> no_signup_mail]"

definition opted_out_worker :: worker_state where
  "opted_out_worker = \<lparr>preferences = opted_out_store, events = []\<rparr>"

definition html_template :: template where
  "html_template context = Inr ''<html></html>''"

definition broken_template :: template where
  "broken_template context = Inl (Exception ''UndefinedError'')"

definition working_service :: EmailService where
  "working_service =
     EmailService_init (Some ''noreply@mergington.edu'') (Some ''secret'')
       (\<lambda>name. Inr html_template) Inr (\<lambda>message. Inr ())"

definition unconfigured_service :: EmailService where
  "unconfigured_service =
     EmailService_init None None (\<lambda>name. Inr html_template) Inr (\<lambda>message. Inr ())"

definition no_template_service :: EmailService where
  "no_template_service =
     EmailService_init (Some ''noreply@mergington.edu'') (Some ''secret'')
       (\<lambda>name. Inl (Exception ''TemplateNotFound'')) Inr (\<lambda>message. Inr ())"

definition bad_render_service :: EmailService where
  "bad_render_service =
     EmailService_init (Some ''noreply@mergington.edu'') (Some ''secret'')
       (\<lambda>name. Inr broken_template) Inr (\<lambda>message. Inr ())"

definition no_transport_service :: EmailService where
  "no_transport_service =
     EmailService_init (Some ''noreply@mergington.edu'') (Some ''secret'')
       (\<lambda>name. Inr html_template) Inr (\<lambda>message. Inl (Exception ''ConnectionRefused''))"

definition chess_club :: activity where
  "chess_club =
     \<lparr> act_description = ''Learn strategies and compete in chess tournaments'',
       act_schedule = ''Fridays, 3:30 PM - 5:00 PM'',
       act_max_participants = 12,
       act_participants = [''michael@mergington.edu'', ''daniel@mergington.edu''] \<rparr>"

definition idle_app :: app_state where
  "idle_app =
     \<lparr> activities = [''Chess Club'' \<mapsto> chess_club],
       broker_failure = None, queue = [], warnings = [] \<rparr>"

section \<open>Auxiliary facts\<close>

lemma get_user_preferences_present:
  "s e = Some p \<Longrightarrow> get_user_preferences v s e = (Inr p, s)"
  by (simp add: get_user_preferences_def)

lemma get_user_preferences_accepted:
  "s e = None \<Longrightarrow> v e = Inr a \<Longrightarrow>
   get_user_preferences v s e =
     (Inr (EmailPreferences_defaults a), s(e \<mapsto> EmailPreferences_defaults a))"
  by (simp add: get_user_preferences_def EmailPreferences_init_def)

lemma get_user_preferences_refused:
  "s e = None \<Longrightarrow> v e = Inl x \<Longrightarrow> get_user_preferences v s e = (Inl x, s)"
  by (simp add: get_user_preferences_def EmailPreferences_init_def)

text \<open>A read that returns a record either found it or has just built it from the defaults.\<close>

lemma get_user_preferences_cases:
  assumes "get_user_preferences v s e = (Inr p, s')"
  shows "(s e = Some p \<and> s' = s) \<or>
         (\<exists>a. s e = None \<and> v e = Inr a \<and> p = EmailPreferences_defaults a \<and> s' = s(e \<mapsto> p))"
  using assms
  by (auto simp: get_user_preferences_def EmailPreferences_init_def
        split: option.splits sum.splits)


text \<open>The dictionary \<open>category_map\<close> has an entry for every member of the enumeration.\<close>

lemma category_map_total:
  "map_of (category_map p) c =
     Some (case c of
             SIGNUP_CONFIRMATION \<Rightarrow> signup_confirmation p
           | UNREGISTER_CONFIRMATION \<Rightarrow> unregister_confirmation p
           | ACTIVITY_CHANGES \<Rightarrow> activity_changes p
           | REMINDERS \<Rightarrow> reminders p
           | WEEKLY_DIGEST \<Rightarrow> weekly_digest p
           | NEW_ACTIVITIES \<Rightarrow> new_activities p
           | ATTENDANCE \<Rightarrow> attendance p)"
  by (cases c) (simp_all add: category_map_def)

lemma should_send_email_read:
  "get_user_preferences v s e = (Inr p, s') \<Longrightarrow>
   should_send_email v s e c =
     (Inr (if \<not> enabled p \<or> frequency p = DISABLED then False
           else if digest_only p \<and> c \<noteq> WEEKLY_DIGEST then False
           else (case c of
                   SIGNUP_CONFIRMATION \<Rightarrow> signup_confirmation p
                 | UNREGISTER_CONFIRMATION \<Rightarrow> unregister_confirmation p
                 | ACTIVITY_CHANGES \<Rightarrow> activity_changes p
                 | REMINDERS \<Rightarrow> reminders p
                 | WEEKLY_DIGEST \<Rightarrow> weekly_digest p
                 | NEW_ACTIVITIES \<Rightarrow> new_activities p
                 | ATTENDANCE \<Rightarrow> attendance p)), s')"
  by (simp add: should_send_email_def category_map_total)

lemma should_send_email_raises:
  "get_user_preferences v s e = (Inl x, s') \<Longrightarrow> should_send_email v s e c = (Inl x, s')"
  by (simp add: should_send_email_def)

lemma snd_should_send_email:
  "snd (should_send_email v s e c) = snd (get_user_preferences v s e)"
  by (simp add: should_send_email_def split: prod.splits sum.splits option.splits)

lemma snd_get_parent_email:
  "snd (get_parent_email v s e) = snd (get_user_preferences v s e)"
  by (simp add: get_parent_email_def split: prod.splits sum.splits)



text \<open>\<open>str_nat\<close> prints decimal digits.\<close>

lemma str_nat_example: "str_nat 305 = ''305''"
  by (simp add: str_nat.simps)

text \<open>A record written with \<open>update_user_preferences\<close> is the one the next read returns.\<close>

lemma read_after_update:
  "get_user_preferences v (snd (update_user_preferences s e p)) e =
     (Inr p, snd (update_user_preferences s e p))"
  by (simp add: update_user_preferences_def get_user_preferences_def)

text \<open>
  The broadcast tasks: with nobody left after the comprehension the task returns the skipped
  result and the email service is not called; otherwise the service is called with the
  list the comprehension kept; and when the comprehension raises, so does the task.
\<close>

lemma send_activity_change_task_skipped:
  assumes "filtered_recipients v (preferences w) xs ACTIVITY_CHANGES = (Inr [], s')"
  shows "send_activity_change_task v svc w xs activity_name change_description new_schedule =
           (Inr [(''status'', PyStr ''skipped''),
                 (''reason'', PyStr ''no recipients with enabled preferences'')],
            w\<lparr>preferences := s'\<rparr>)"
  using assms by (simp add: send_activity_change_task_def)

lemma send_new_activity_announcement_task_skipped:
  assumes "filtered_recipients v (preferences w) xs NEW_ACTIVITIES = (Inr [], s')"
  shows "send_new_activity_announcement_task v svc w xs activity_name schedule description
             max_participants portal_url =
           (Inr [(''status'', PyStr ''skipped''),
                 (''reason'', PyStr ''no recipients with enabled preferences'')],
            w\<lparr>preferences := s'\<rparr>)"
  using assms by (simp add: send_new_activity_announcement_task_def)

lemma send_activity_change_task_sent:
  assumes "filtered_recipients v (preferences w) xs ACTIVITY_CHANGES = (Inr ys, s')"
    and "ys \<noteq> []"
  shows "events (snd (send_activity_change_task v svc w xs activity_name change_description
                        new_schedule)) =
           snd (send_activity_change_notification svc ys activity_name change_description
                  new_schedule None (events w))"
  using assms by (auto simp: send_activity_change_task_def split: prod.splits)

lemma send_new_activity_announcement_task_raises:
  assumes "filtered_recipients v (preferences w) xs NEW_ACTIVITIES = (Inl x, s')"
  shows "send_new_activity_announcement_task v svc w xs activity_name schedule description
             max_participants portal_url = (Inl x, w\<lparr>preferences := s'\<rparr>)"
  using assms by (simp add: send_new_activity_announcement_task_def)

text \<open>
  A signup confirmation for an identity the store has not seen, with a service that is
  configured: one message to the identity alone, from the template
  \<open>signup_confirmation\<close>, with no copy to a parent.
\<close>

lemma signup_default_sent:
  "send_signup_confirmation_task sample_EmailStr working_service
       \<lparr>preferences = no_preferences, events = []\<rparr>
       ''a@x.edu'' ''Chess Club'' ''Fri 3:30-5:00'' ''desc'' None =
     (Inr [(''status'', PyStr ''sent'')],
      \<lparr>preferences = no_preferences(''a@x.edu'' \<mapsto> EmailPreferences_defaults ''a@x.edu''),
        events =
          [Get_template ''signup_confirmation.html'',
           Render [(''student_name'', PyNone), (''activity_name'', PyStr ''Chess Club''),
                   (''schedule'', PyStr ''Fri 3:30-5:00''), (''description'', PyStr ''desc''),
                   (''subject'', PyStr ''Confirmed: Chess Club Registration'')],
           Send_message \<lparr>msg_subject = ''Confirmed: Chess Club Registration'',
                          msg_recipients = [''a@x.edu''], msg_body = ''<html></html>'',
                          msg_cc = None\<rparr>,
           Logger_info_sent [''a@x.edu''] ''Confirmed: Chess Club Registration'']\<rparr>)"
  by (simp add: send_signup_confirmation_task_def should_send_email_def
        get_user_preferences_def EmailPreferences_init_def EmailPreferences_defaults_def
        sample_EmailStr_def no_preferences_def category_map_def
        get_parent_email_def send_signup_confirmation_def send_email_def send_email_try_def
        working_service_def EmailService_init_def is_email_enabled_def truthy_def
        html_template_def py_opt_str_def Let_def)

section \<open>The preference store\<close>

text \<open>
  C2. For an identity that is not in the store and that the validation accepts as an
  address, the first read returns a record with every category flag true, \<open>enabled\<close>
  true, frequency \<open>IMMEDIATE\<close>, \<open>digest_only\<close> false, \<open>parent_cc_enabled\<close> false and no
  parent address, whose \<open>email\<close> is the address in its normal form, and it stores that
  record under the identity as it was given, leaving every other entry as it was. For an
  identity that is not in the store and that the validation refuses, the read raises what
  the validation raises and the store is as it was.
\<close>

theorem first_read_defaults:
  assumes "s e = None"
  shows "(v e = Inr a \<longrightarrow>
            (\<exists>p s'. get_user_preferences v s e = (Inr p, s') \<and> s' e = Some p \<and>
               (\<forall>k. k \<noteq> e \<longrightarrow> s' k = s k) \<and>
               enabled p \<and> frequency p = IMMEDIATE \<and>
               signup_confirmation p \<and> unregister_confirmation p \<and> activity_changes p \<and>
               reminders p \<and> weekly_digest p \<and> new_activities p \<and> attendance p \<and>
               \<not> digest_only p \<and> \<not> parent_cc_enabled p \<and> parent_email p = None \<and>
               email p = a)) \<and>
         (v e = Inl x \<longrightarrow> get_user_preferences v s e = (Inl x, s))"
  using assms
  by (simp add: get_user_preferences_def EmailPreferences_init_def
        EmailPreferences_defaults_def)

theorem first_read_defaults_witness:
  "parent_store ''A@X.EDU'' = None \<and>
   sample_EmailStr ''A@X.EDU'' = Inr ''A@x.edu'' \<and>
   fst (get_user_preferences sample_EmailStr parent_store ''A@X.EDU'') =
     Inr (EmailPreferences_defaults ''A@x.edu'') \<and>
   snd (get_user_preferences sample_EmailStr parent_store ''A@X.EDU'') ''A@X.EDU'' =
     Some (EmailPreferences_defaults ''A@x.edu'') \<and>
   snd (get_user_preferences sample_EmailStr parent_store ''A@X.EDU'') ''b@x.edu'' =
     Some with_parent \<and>
   enabled (EmailPreferences_defaults ''A@x.edu'') \<and>
   frequency (EmailPreferences_defaults ''A@x.edu'') = IMMEDIATE \<and>
   \<not> digest_only (EmailPreferences_defaults ''A@x.edu'') \<and>
   parent_store ''bad'' = None \<and>
   sample_EmailStr ''bad'' = Inl (Exception ''value is not a valid email address'') \<and>
   get_user_preferences sample_EmailStr parent_store ''bad'' =
     (Inl (Exception ''value is not a valid email address''), parent_store)"
proof -
  have absent: "parent_store ''A@X.EDU'' = None" "parent_store ''bad'' = None"
    by (simp_all add: parent_store_def)
  have ok: "sample_EmailStr ''A@X.EDU'' = Inr ''A@x.edu''"
    by (simp add: sample_EmailStr_def)
  have no: "sample_EmailStr ''bad'' = Inl (Exception ''value is not a valid email address'')"
    by (simp add: sample_EmailStr_def)
  from first_read_defaults [of parent_store "''A@X.EDU''" sample_EmailStr "''A@x.edu''",
         OF absent(1)] ok
  obtain p s' where
    r: "get_user_preferences sample_EmailStr parent_store ''A@X.EDU'' = (Inr p, s')"
    and f: "enabled p" "frequency p = IMMEDIATE" "\<not> digest_only p"
    by blast
  have e: "get_user_preferences sample_EmailStr parent_store ''A@X.EDU'' =
     (Inr (EmailPreferences_defaults ''A@x.edu''),
      parent_store(''A@X.EDU'' \<mapsto> EmailPreferences_defaults ''A@x.edu''))"
    using absent(1) ok by (rule get_user_preferences_accepted)
  from first_read_defaults [of parent_store "''bad''" sample_EmailStr _
         "Exception ''value is not a valid email address''", OF absent(2)] no
  have b: "get_user_preferences sample_EmailStr parent_store ''bad'' =
     (Inl (Exception ''value is not a valid email address''), parent_store)"
    by blast
  have other: "parent_store ''b@x.edu'' = Some with_parent"
    by (simp add: parent_store_def)
  from r e f have f': "enabled (EmailPreferences_defaults ''A@x.edu'')"
    "frequency (EmailPreferences_defaults ''A@x.edu'') = IMMEDIATE"
    "\<not> digest_only (EmailPreferences_defaults ''A@x.edu'')"
    by simp_all
  from absent ok no e b other f' show ?thesis by simp
qed

text \<open>
  An identity that is no address: the first read of it returns no record and stores none.
\<close>

theorem first_read_refused:
  "no_preferences ''bad'' = None \<and>
   get_user_preferences sample_EmailStr no_preferences ''bad'' =
     (Inl (Exception ''value is not a valid email address''), no_preferences) \<and>
   snd (get_user_preferences sample_EmailStr no_preferences ''bad'') ''bad'' = None"
  by (simp add: get_user_preferences_def EmailPreferences_init_def sample_EmailStr_def
        no_preferences_def)

text \<open>
  C9. Deleting an identity returns true exactly when the store held a record for it, and
  afterwards the store holds none for it and every other entry is as before. The next read
  of that identity returns the all-defaults record, with the address in its normal form,
  when the validation accepts the identity, and raises when it refuses it.
\<close>

theorem delete_then_read:
  "fst (delete_user_preferences s e) = (s e \<noteq> None) \<and>
   snd (delete_user_preferences s e) e = None \<and>
   (\<forall>k. k \<noteq> e \<longrightarrow> snd (delete_user_preferences s e) k = s k) \<and>
   (v e = Inr a \<longrightarrow>
      fst (get_user_preferences v (snd (delete_user_preferences s e)) e) =
        Inr (EmailPreferences_defaults a)) \<and>
   (v e = Inl x \<longrightarrow>
      fst (get_user_preferences v (snd (delete_user_preferences s e)) e) = Inl x)"
  by (auto simp: delete_user_preferences_def get_user_preferences_def
        EmailPreferences_init_def)

theorem delete_then_read_witness:
  "fst (delete_user_preferences opted_out_store ''d@x.edu'') = True \<and>
   fst (delete_user_preferences parent_store ''d@x.edu'') = False \<and>
   ''b@x.edu'' \<noteq> ''d@x.edu'' \<and>
   snd (delete_user_preferences opted_out_store ''d@x.edu'') ''b@x.edu'' = Some with_parent \<and>
   sample_EmailStr ''d@x.edu'' = Inr ''d@x.edu'' \<and>
   fst (get_user_preferences sample_EmailStr
          (snd (delete_user_preferences opted_out_store ''d@x.edu'')) ''d@x.edu'') =
     Inr (EmailPreferences_defaults ''d@x.edu'') \<and>
   sample_EmailStr ''bad'' = Inl (Exception ''value is not a valid email address'') \<and>
   fst (get_user_preferences sample_EmailStr
          (snd (delete_user_preferences parent_store ''bad'')) ''bad'') =
     Inl (Exception ''value is not a valid email address'')"
proof -
  have ok: "sample_EmailStr ''d@x.edu'' = Inr ''d@x.edu''"
    by (simp add: sample_EmailStr_def)
  have no: "sample_EmailStr ''bad'' = Inl (Exception ''value is not a valid email address'')"
    by (simp add: sample_EmailStr_def)
  have st: "opted_out_store ''d@x.edu'' \<noteq> None" "parent_store ''d@x.edu'' = None"
    "opted_out_store ''b@x.edu'' = Some with_parent"
    by (simp_all add: opted_out_store_def parent_store_def)
  from delete_then_read [of opted_out_store "''d@x.edu''" sample_EmailStr "''d@x.edu''"]
       delete_then_read [of parent_store "''d@x.edu''"]
       delete_then_read [of parent_store "''bad''" sample_EmailStr _
         "Exception ''value is not a valid email address''"]
       ok no st
  show ?thesis by simp
qed

text \<open>
  After the delete of an identity that is no address, the next read returns no record.
\<close>

theorem delete_then_read_refused:
  "delete_user_preferences no_preferences ''bad'' = (False, no_preferences) \<and>
   get_user_preferences sample_EmailStr (snd (delete_user_preferences no_preferences ''bad''))
       ''bad'' =
     (Inl (Exception ''value is not a valid email address''), no_preferences)"
  by (simp add: delete_user_preferences_def get_user_preferences_def
        EmailPreferences_init_def sample_EmailStr_def no_preferences_def)

text \<open>
  C10. On an identity that is not in the store and that the validation accepts, each of
  the three reads (\<open>get_user_preferences\<close>, \<open>should_send_email\<close>, \<open>get_parent_email\<close>)
  leaves the store with a default record added for that identity, so the dictionary that
  \<open>get_all_preferences\<close> returns afterwards has the identity among its keys, which it had
  not before. On an identity that is not in the store and that the validation refuses,
  each of the three raises and leaves the store as it was. On an identity that is in the
  store, each of the three leaves the store as it was.
\<close>

theorem reads_create_defaults:
  "(s e = None \<and> v e = Inr a \<longrightarrow>
      snd (get_user_preferences v s e) = s(e \<mapsto> EmailPreferences_defaults a) \<and>
      snd (should_send_email v s e c) = s(e \<mapsto> EmailPreferences_defaults a) \<and>
      snd (get_parent_email v s e) = s(e \<mapsto> EmailPreferences_defaults a) \<and>
      e \<in> dom (fst (get_all_preferences (snd (get_user_preferences v s e)))) \<and>
      e \<in> dom (fst (get_all_preferences (snd (should_send_email v s e c)))) \<and>
      e \<in> dom (fst (get_all_preferences (snd (get_parent_email v s e)))) \<and>
      e \<notin> dom (fst (get_all_preferences s))) \<and>
   (s e = None \<and> v e = Inl x \<longrightarrow>
      get_user_preferences v s e = (Inl x, s) \<and>
      should_send_email v s e c = (Inl x, s) \<and>
      get_parent_email v s e = (Inl x, s)) \<and>
   (s e \<noteq> None \<longrightarrow>
      snd (get_user_preferences v s e) = s \<and>
      snd (should_send_email v s e c) = s \<and>
      snd (get_parent_email v s e) = s)"
proof (intro conjI impI)
  assume h: "s e = None \<and> v e = Inl x"
  then have g: "get_user_preferences v s e = (Inl x, s)"
    by (simp add: get_user_preferences_refused)
  then show "get_user_preferences v s e = (Inl x, s)" .
  from g show "should_send_email v s e c = (Inl x, s)"
    by (rule should_send_email_raises)
  from g show "get_parent_email v s e = (Inl x, s)"
    by (simp add: get_parent_email_def)
qed (auto simp: snd_should_send_email snd_get_parent_email get_user_preferences_accepted
       get_user_preferences_present get_all_preferences_def)

theorem reads_create_defaults_witness:
  "parent_store ''a@x.edu'' = None \<and> sample_EmailStr ''a@x.edu'' = Inr ''a@x.edu'' \<and>
   snd (should_send_email sample_EmailStr parent_store ''a@x.edu'' REMINDERS) ''a@x.edu'' =
     Some (EmailPreferences_defaults ''a@x.edu'') \<and>
   ''a@x.edu'' \<in> dom (fst (get_all_preferences
       (snd (get_parent_email sample_EmailStr parent_store ''a@x.edu'')))) \<and>
   parent_store ''bad'' = None \<and>
   sample_EmailStr ''bad'' = Inl (Exception ''value is not a valid email address'') \<and>
   should_send_email sample_EmailStr parent_store ''bad'' REMINDERS =
     (Inl (Exception ''value is not a valid email address''), parent_store) \<and>
   parent_store ''b@x.edu'' \<noteq> None \<and>
   snd (get_user_preferences sample_EmailStr parent_store ''b@x.edu'') = parent_store \<and>
   snd (should_send_email sample_EmailStr parent_store ''b@x.edu'' REMINDERS) = parent_store \<and>
   snd (get_parent_email sample_EmailStr parent_store ''b@x.edu'') = parent_store"
proof -
  have ok: "sample_EmailStr ''a@x.edu'' = Inr ''a@x.edu''"
    by (simp add: sample_EmailStr_def)
  have no: "sample_EmailStr ''bad'' = Inl (Exception ''value is not a valid email address'')"
    by (simp add: sample_EmailStr_def)
  have st: "parent_store ''a@x.edu'' = None" "parent_store ''bad'' = None"
    "parent_store ''b@x.edu'' \<noteq> None"
    by (simp_all add: parent_store_def)
  from reads_create_defaults [of parent_store "''a@x.edu''" sample_EmailStr "''a@x.edu''"
         REMINDERS]
       reads_create_defaults [of parent_store "''bad''" sample_EmailStr _ REMINDERS
         "Exception ''value is not a valid email address''"]
       reads_create_defaults [of parent_store "''b@x.edu''" sample_EmailStr _ REMINDERS]
       ok no st
  show ?thesis by (simp add: get_all_preferences_def)
qed

text \<open>
  A read of an identity that is no address and is not in the store: it raises, and the
  identity is not among the keys afterwards.
\<close>

theorem read_refused_inserts_nothing:
  "no_preferences ''bad'' = None \<and>
   should_send_email sample_EmailStr no_preferences ''bad'' REMINDERS =
     (Inl (Exception ''value is not a valid email address''), no_preferences) \<and>
   ''bad'' \<notin> dom (fst (get_all_preferences
       (snd (should_send_email sample_EmailStr no_preferences ''bad'' REMINDERS))))"
  by (simp add: should_send_email_def get_user_preferences_def EmailPreferences_init_def
        sample_EmailStr_def no_preferences_def get_all_preferences_def)

section \<open>The decision to send\<close>

text \<open>
  C3. Whatever the category and whatever the category flags, \<open>should_send_email\<close>
  answers false for an identity whose preferences have \<open>enabled\<close> false, and for one whose
  frequency is \<open>DISABLED\<close>. The identity's preferences are the record a read returns.
\<close>

theorem should_send_switched_off:
  assumes "get_user_preferences v s e = (Inr p, s')"
    and "\<not> enabled p \<or> frequency p = DISABLED"
  shows "should_send_email v s e c = (Inr False, s')"
  using assms by (auto simp: should_send_email_def)

theorem should_send_switched_off_witness:
  "get_user_preferences sample_EmailStr [''off@x.edu'' \<mapsto> switched_off] ''off@x.edu'' =
     (Inr switched_off, [''off@x.edu'' \<mapsto> switched_off]) \<and>
   \<not> enabled switched_off \<and>
   should_send_email sample_EmailStr [''off@x.edu'' \<mapsto> switched_off] ''off@x.edu''
       SIGNUP_CONFIRMATION = (Inr False, [''off@x.edu'' \<mapsto> switched_off]) \<and>
   get_user_preferences sample_EmailStr [''q@x.edu'' \<mapsto> never_send] ''q@x.edu'' =
     (Inr never_send, [''q@x.edu'' \<mapsto> never_send]) \<and>
   frequency never_send = DISABLED \<and>
   should_send_email sample_EmailStr [''q@x.edu'' \<mapsto> never_send] ''q@x.edu''
       WEEKLY_DIGEST = (Inr False, [''q@x.edu'' \<mapsto> never_send])"
proof -
  have p: "get_user_preferences sample_EmailStr [''off@x.edu'' \<mapsto> switched_off]
             ''off@x.edu'' = (Inr switched_off, [''off@x.edu'' \<mapsto> switched_off])"
    by (simp add: get_user_preferences_def)
  have off: "\<not> enabled switched_off"
    by (simp add: switched_off_def EmailPreferences_defaults_def)
  have q: "get_user_preferences sample_EmailStr [''q@x.edu'' \<mapsto> never_send] ''q@x.edu'' =
             (Inr never_send, [''q@x.edu'' \<mapsto> never_send])"
    by (simp add: get_user_preferences_def)
  have never: "frequency never_send = DISABLED"
    by (simp add: never_send_def)
  from off have off': "\<not> enabled switched_off \<or> frequency switched_off = DISABLED" ..
  from never have never': "\<not> enabled never_send \<or> frequency never_send = DISABLED" ..
  from should_send_switched_off [OF p off', of SIGNUP_CONFIRMATION]
       should_send_switched_off [OF q never', of WEEKLY_DIGEST] p off q never
  show ?thesis by blast
qed

text \<open>
  C4. For an identity with \<open>digest_only\<close> true, \<open>enabled\<close> true and a frequency other than
  \<open>DISABLED\<close>, \<open>should_send_email\<close> answers false for every category other than
  \<open>WEEKLY_DIGEST\<close>, and for \<open>WEEKLY_DIGEST\<close> it answers the \<open>weekly_digest\<close> flag.
\<close>

theorem should_send_digest_only:
  assumes "get_user_preferences v s e = (Inr p, s')"
    and "digest_only p" and "enabled p" and "frequency p \<noteq> DISABLED"
  shows "(c \<noteq> WEEKLY_DIGEST \<longrightarrow> should_send_email v s e c = (Inr False, s')) \<and>
         should_send_email v s e WEEKLY_DIGEST = (Inr (weekly_digest p), s')"
  using assms by (auto simp: should_send_email_def category_map_total)

theorem should_send_digest_only_witness:
  "get_user_preferences sample_EmailStr [''digest@mergington.edu'' \<mapsto> digest_reader]
       ''digest@mergington.edu'' =
     (Inr digest_reader, [''digest@mergington.edu'' \<mapsto> digest_reader]) \<and>
   digest_only digest_reader \<and> enabled digest_reader \<and> frequency digest_reader \<noteq> DISABLED \<and>
   SIGNUP_CONFIRMATION \<noteq> WEEKLY_DIGEST \<and>
   should_send_email sample_EmailStr [''digest@mergington.edu'' \<mapsto> digest_reader]
       ''digest@mergington.edu'' SIGNUP_CONFIRMATION =
     (Inr False, [''digest@mergington.edu'' \<mapsto> digest_reader]) \<and>
   should_send_email sample_EmailStr [''digest@mergington.edu'' \<mapsto> digest_reader]
       ''digest@mergington.edu'' WEEKLY_DIGEST =
     (Inr True, [''digest@mergington.edu'' \<mapsto> digest_reader])"
proof -
  have p: "get_user_preferences sample_EmailStr [''digest@mergington.edu'' \<mapsto> digest_reader]
             ''digest@mergington.edu'' =
           (Inr digest_reader, [''digest@mergington.edu'' \<mapsto> digest_reader])"
    by (simp add: get_user_preferences_def)
  have f: "digest_only digest_reader" "enabled digest_reader"
    "frequency digest_reader \<noteq> DISABLED" "weekly_digest digest_reader"
    by (simp_all add: digest_reader_def EmailPreferences_defaults_def)
  from should_send_digest_only [OF p f(1) f(2) f(3), of SIGNUP_CONFIRMATION] p f
  show ?thesis by simp
qed

section \<open>Recipients\<close>




text \<open>
  C6. For an identity that has preferences (it is in the store, or a read creates the
  defaults for it), \<open>get_parent_email\<close> returns the parent address exactly when the
  preferences have \<open>parent_cc_enabled\<close> true and a parent address is set, and \<open>None\<close> in
  every other case. A parent address is set when the field holds an address; the field
  type admits no empty address, and the truth test of the source counts an empty string
  as not set. For an identity whose read raises, \<open>get_parent_email\<close> raises the same.
\<close>

theorem get_parent_email_iff:
  "(get_user_preferences v s e = (Inr p, s') \<longrightarrow>
      get_parent_email v s e =
        (Inr (if parent_cc_enabled p \<and> (\<exists>a. parent_email p = Some a \<and> a \<noteq> [])
              then parent_email p else None), s')) \<and>
   (get_user_preferences v s e = (Inl x, s') \<longrightarrow> get_parent_email v s e = (Inl x, s'))"
  by (auto simp: get_parent_email_def)

theorem get_parent_email_iff_witness:
  "get_user_preferences sample_EmailStr parent_store ''b@x.edu'' =
     (Inr with_parent, parent_store) \<and>
   get_parent_email sample_EmailStr parent_store ''b@x.edu'' =
     (Inr (Some ''p@x.edu''), parent_store) \<and>
   fst (get_user_preferences sample_EmailStr parent_store ''a@x.edu'') =
     Inr (EmailPreferences_defaults ''a@x.edu'') \<and>
   fst (get_parent_email sample_EmailStr parent_store ''a@x.edu'') = Inr None \<and>
   get_user_preferences sample_EmailStr parent_store ''bad'' =
     (Inl (Exception ''value is not a valid email address''), parent_store) \<and>
   get_parent_email sample_EmailStr parent_store ''bad'' =
     (Inl (Exception ''value is not a valid email address''), parent_store)"
proof -
  have p: "get_user_preferences sample_EmailStr parent_store ''b@x.edu'' =
             (Inr with_parent, parent_store)"
    by (simp add: get_user_preferences_def parent_store_def)
  have q: "get_user_preferences sample_EmailStr parent_store ''a@x.edu'' =
             (Inr (EmailPreferences_defaults ''a@x.edu''),
              parent_store(''a@x.edu'' \<mapsto> EmailPreferences_defaults ''a@x.edu''))"
    by (simp add: get_user_preferences_def parent_store_def EmailPreferences_init_def
          sample_EmailStr_def)
  have b: "get_user_preferences sample_EmailStr parent_store ''bad'' =
             (Inl (Exception ''value is not a valid email address''), parent_store)"
    by (simp add: get_user_preferences_def parent_store_def EmailPreferences_init_def
          sample_EmailStr_def)
  from get_parent_email_iff [of sample_EmailStr parent_store "''b@x.edu''" with_parent
         parent_store] p
  have 1: "get_parent_email sample_EmailStr parent_store ''b@x.edu'' =
             (Inr (Some ''p@x.edu''), parent_store)"
    by (simp add: with_parent_def EmailPreferences_defaults_def)
  from get_parent_email_iff [of sample_EmailStr parent_store "''a@x.edu''"
         "EmailPreferences_defaults ''a@x.edu''"
         "parent_store(''a@x.edu'' \<mapsto> EmailPreferences_defaults ''a@x.edu'')"] q
  have 2: "fst (get_parent_email sample_EmailStr parent_store ''a@x.edu'') = Inr None"
    by (simp add: EmailPreferences_defaults_def)
  from get_parent_email_iff [of sample_EmailStr parent_store "''bad''" _ parent_store
         "Exception ''value is not a valid email address''"] b
  have 3: "get_parent_email sample_EmailStr parent_store ''bad'' =
             (Inl (Exception ''value is not a valid email address''), parent_store)"
    by simp
  from p q b 1 2 3 show ?thesis by simp
qed

text \<open>
  An identity that is no address and is not in the store: \<open>get_parent_email\<close> does not
  return \<open>None\<close>, it raises.
\<close>

theorem get_parent_email_refused:
  "no_preferences ''bad'' = None \<and>
   get_parent_email sample_EmailStr no_preferences ''bad'' =
     (Inl (Exception ''value is not a valid email address''), no_preferences)"
  by (simp add: get_parent_email_def get_user_preferences_def EmailPreferences_init_def
        sample_EmailStr_def no_preferences_def)

section \<open>Dispatch and delivery\<close>

text \<open>
  C1. When the identity's preferences have \<open>signup_confirmation\<close> false, the signup
  confirmation task returns the skipped result, with the reason the source gives for an
  opt-out (\<open>"user preferences"\<close>), and leaves the worker as it found it: the email service
  is not called through \<open>run_async\<close>, so no template is fetched, no message is handed to
  the transport and nothing is logged, and the store is unchanged. The handler
  \<open>signup_for_activity\<close> reads no preference: for every signup it accepts, it hands the call
  of the task to the broker, and with the broker at work the call is added to the queue.
\<close>

theorem signup_confirmation_skipped:
  assumes "get_user_preferences v (preferences w) e = (Inr p, s')"
    and "\<not> signup_confirmation p"
  shows "send_signup_confirmation_task v svc w e activity_name schedule description
             student_name =
           (Inr [(''status'', PyStr ''skipped''), (''reason'', PyStr ''user preferences'')], w) \<and>
         (activities st activity_name = Some act \<and> e \<notin> set (act_participants act) \<and>
          broker_failure st = None \<longrightarrow>
            queue (snd (signup_for_activity st activity_name e)) =
              queue st @ [Send_signup_confirmation_task e activity_name (act_schedule act)
                            (act_description act)])"
proof
  from get_user_preferences_cases [OF assms(1)] assms(2)
  have same: "s' = preferences w"
    by (auto simp: EmailPreferences_defaults_def)
  have "should_send_email v (preferences w) e SIGNUP_CONFIRMATION = (Inr False, s')"
    using assms(2) by (simp add: should_send_email_read [OF assms(1)])
  then show "send_signup_confirmation_task v svc w e activity_name schedule description
               student_name =
             (Inr [(''status'', PyStr ''skipped''), (''reason'', PyStr ''user preferences'')], w)"
    by (simp add: send_signup_confirmation_task_def same)
next
  show "activities st activity_name = Some act \<and> e \<notin> set (act_participants act) \<and>
        broker_failure st = None \<longrightarrow>
          queue (snd (signup_for_activity st activity_name e)) =
            queue st @ [Send_signup_confirmation_task e activity_name (act_schedule act)
                          (act_description act)]"
    by (simp add: signup_for_activity_def delay_def Let_def)
qed

theorem signup_confirmation_skipped_witness:
  "get_user_preferences sample_EmailStr (preferences opted_out_worker) ''d@x.edu'' =
     (Inr no_signup_mail, opted_out_store) \<and>
   \<not> signup_confirmation no_signup_mail \<and>
   send_signup_confirmation_task sample_EmailStr working_service opted_out_worker
       ''d@x.edu'' ''Chess Club'' ''Fridays, 3:30 PM - 5:00 PM''
       ''Learn strategies and compete in chess tournaments'' None =
     (Inr [(''status'', PyStr ''skipped''), (''reason'', PyStr ''user preferences'')],
      opted_out_worker) \<and>
   activities idle_app ''Chess Club'' = Some chess_club \<and>
   ''d@x.edu'' \<notin> set (act_participants chess_club) \<and>
   broker_failure idle_app = None \<and>
   queue (snd (signup_for_activity idle_app ''Chess Club'' ''d@x.edu'')) =
     [Send_signup_confirmation_task ''d@x.edu'' ''Chess Club'' ''Fridays, 3:30 PM - 5:00 PM''
        ''Learn strategies and compete in chess tournaments'']"
proof -
  have p: "get_user_preferences sample_EmailStr (preferences opted_out_worker) ''d@x.edu'' =
             (Inr no_signup_mail, opted_out_store)"
    by (simp add: get_user_preferences_def opted_out_worker_def opted_out_store_def)
  have off: "\<not> signup_confirmation no_signup_mail"
    by (simp add: no_signup_mail_def)
  have app: "activities idle_app ''Chess Club'' = Some chess_club"
    "''d@x.edu'' \<notin> set (act_participants chess_club)" "broker_failure idle_app = None"
    "queue idle_app = []"
    by (simp_all add: idle_app_def chess_club_def)
  from signup_confirmation_skipped [OF p off, of working_service "''Chess Club''"
         "''Fridays, 3:30 PM - 5:00 PM''"
         "''Learn strategies and compete in chess tournaments''" None idle_app chess_club]
       p off app
  show ?thesis by (simp add: chess_club_def)
qed

text \<open>
  A signup of an identity whose stored preferences have \<open>signup_confirmation\<close> false: the
  handler hands the call of the confirmation task to the broker all the same.
\<close>

theorem signup_queued_despite_opt_out:
  "opted_out_store ''d@x.edu'' = Some no_signup_mail \<and>
   \<not> signup_confirmation no_signup_mail \<and>
   queue idle_app = [] \<and>
   queue (snd (signup_for_activity idle_app ''Chess Club'' ''d@x.edu'')) =
     [Send_signup_confirmation_task ''d@x.edu'' ''Chess Club'' ''Fridays, 3:30 PM - 5:00 PM''
        ''Learn strategies and compete in chess tournaments'']"
  by (simp add: signup_for_activity_def delay_def Let_def idle_app_def chess_club_def
        opted_out_store_def no_signup_mail_def)

text \<open>
  C7. The batch endpoint answers an empty recipient list with the error 400
  \<open>"No recipients specified"\<close> and leaves the application as it found it: nothing is
  handed to the broker. A list that is not empty is never answered with an error, and with
  the broker at work the call of the batch task is added to the queue.
\<close>

theorem batch_empty_rejected:
  "send_batch_announcement st [] subject template_name context =
     (Inl (HTTPException 400 ''No recipients specified''), st) \<and>
   (recipients \<noteq> [] \<longrightarrow>
      (\<exists>response st'.
         send_batch_announcement st recipients subject template_name context =
           (Inr response, st') \<and>
         (broker_failure st = None \<longrightarrow>
            queue st' =
              queue st @ [Send_batch_emails_task recipients subject template_name context])))"
  by (simp add: send_batch_announcement_def delay_def split: option.splits)

theorem batch_empty_rejected_witness:
  "send_batch_announcement idle_app [] ''Hello'' ''new_activity'' [] =
     (Inl (HTTPException 400 ''No recipients specified''), idle_app) \<and>
   [''a@x.edu''] \<noteq> [] \<and> broker_failure idle_app = None \<and>
   (\<exists>response st'.
      send_batch_announcement idle_app [''a@x.edu''] ''Hello'' ''new_activity'' [] =
        (Inr response, st') \<and>
      queue st' = [Send_batch_emails_task [''a@x.edu''] ''Hello'' ''new_activity'' []])"
  using batch_empty_rejected [of idle_app "''Hello''" "''new_activity''" "[]" "[''a@x.edu'']"]
  by (simp add: idle_app_def)

text \<open>
  C8. With the service not enabled, which is how it is created when a credential is
  missing from the environment, \<open>send_email\<close> returns false for every request after one
  info line in the log: no template is fetched or rendered and no message reaches the
  transport. With the service enabled, an exception raised anywhere in the \<open>try\<close> statement is
  answered by an error line in the log and the result false; so it is when fetching the
  template raises, when rendering raises and when the transport raises. The result of
  \<open>send_email\<close> is a truth value in every case.
\<close>

theorem send_email_failures:
  "(\<not> self_enabled svc \<longrightarrow>
      send_email svc rs subject t ctx cc evs =
        (False, evs @ [Logger_info_disabled rs subject])) \<and>
   (\<not> (truthy username \<and> truthy password) \<longrightarrow>
      send_email (EmailService_init username password gt mk sm) rs subject t ctx cc evs =
        (False, evs @ [Logger_info_disabled rs subject])) \<and>
   (self_enabled svc \<and> send_email_try svc rs subject t ctx cc evs = (Inl raised_in_try, evs') \<longrightarrow>
      send_email svc rs subject t ctx cc evs =
        (False, evs' @ [Logger_error_failed rs (str_exn raised_in_try)])) \<and>
   (jinja_get_template svc (t @ ''.html'') = Inl raised_by_loader \<longrightarrow>
      fst (send_email svc rs subject t ctx cc evs) = False) \<and>
   (jinja_get_template svc (t @ ''.html'') = Inr tmpl \<and>
    tmpl (AList.update ''subject'' (PyStr subject) ctx) = Inl raised_by_render \<longrightarrow>
      fst (send_email svc rs subject t ctx cc evs) = False) \<and>
   (jinja_get_template svc (t @ ''.html'') = Inr tmpl \<and>
    tmpl (AList.update ''subject'' (PyStr subject) ctx) = Inr html \<and>
    MessageSchema_init svc
      \<lparr>msg_subject = subject, msg_recipients = rs, msg_body = html, msg_cc = cc\<rparr> = Inr m \<and>
    mail_send_message svc m = Inl raised_by_transport \<longrightarrow>
      fst (send_email svc rs subject t ctx cc evs) = False)"
  by (simp add: send_email_def send_email_try_def EmailService_init_def is_email_enabled_def
        Let_def)

theorem send_email_failures_witness:
  "\<not> self_enabled unconfigured_service \<and>
   send_email unconfigured_service [''a@x.edu''] ''Hi'' ''reminder'' [] None [] =
     (False, [Logger_info_disabled [''a@x.edu''] ''Hi'']) \<and>
   \<not> (truthy None \<and> truthy (Some ''secret'')) \<and>
   send_email (EmailService_init None (Some ''secret'') (\<lambda>name. Inr html_template) Inr
                 (\<lambda>message. Inr ()))
       [''a@x.edu''] ''Hi'' ''reminder'' [] None [] =
     (False, [Logger_info_disabled [''a@x.edu''] ''Hi'']) \<and>
   self_enabled no_template_service \<and>
   send_email_try no_template_service [''a@x.edu''] ''Hi'' ''reminder'' [] None [] =
     (Inl (Exception ''TemplateNotFound''), [Get_template ''reminder.html'']) \<and>
   send_email no_template_service [''a@x.edu''] ''Hi'' ''reminder'' [] None [] =
     (False, [Get_template ''reminder.html'',
              Logger_error_failed [''a@x.edu''] ''TemplateNotFound'']) \<and>
   jinja_get_template bad_render_service ''reminder.html'' = Inr broken_template \<and>
   broken_template [(''subject'', PyStr ''Hi'')] = Inl (Exception ''UndefinedError'') \<and>
   fst (send_email bad_render_service [''a@x.edu''] ''Hi'' ''reminder'' [] None []) = False \<and>
   mail_send_message no_transport_service
     \<lparr>msg_subject = ''Hi'', msg_recipients = [''a@x.edu''], msg_body = ''<html></html>'',
       msg_cc = None\<rparr> = Inl (Exception ''ConnectionRefused'') \<and>
   fst (send_email no_transport_service [''a@x.edu''] ''Hi'' ''reminder'' [] None []) = False"
proof -
  have off: "\<not> self_enabled unconfigured_service"
    by (simp add: unconfigured_service_def EmailService_init_def is_email_enabled_def
          truthy_def)
  have creds: "\<not> (truthy None \<and> truthy (Some ''secret''))"
    by (simp add: truthy_def)
  have on: "self_enabled no_template_service"
    by (simp add: no_template_service_def EmailService_init_def is_email_enabled_def
          truthy_def)
  have raised: "send_email_try no_template_service [''a@x.edu''] ''Hi'' ''reminder'' [] None [] =
     (Inl (Exception ''TemplateNotFound''), [Get_template ''reminder.html''])"
    by (simp add: send_email_try_def no_template_service_def EmailService_init_def)
  have tmpl: "jinja_get_template bad_render_service (''reminder'' @ ''.html'') =
                Inr broken_template"
    by (simp add: bad_render_service_def EmailService_init_def)
  have render: "broken_template (AList.update ''subject'' (PyStr ''Hi'') []) =
                  Inl (Exception ''UndefinedError'')"
    by (simp add: broken_template_def)
  have tmpl': "jinja_get_template no_transport_service (''reminder'' @ ''.html'') =
                 Inr html_template"
    by (simp add: no_transport_service_def EmailService_init_def)
  have render': "html_template (AList.update ''subject'' (PyStr ''Hi'') []) =
                   Inr ''<html></html>''"
    by (simp add: html_template_def)
  have mk: "MessageSchema_init no_transport_service
      \<lparr>msg_subject = ''Hi'', msg_recipients = [''a@x.edu''], msg_body = ''<html></html>'',
        msg_cc = None\<rparr> =
      Inr \<lparr>msg_subject = ''Hi'', msg_recipients = [''a@x.edu''], msg_body = ''<html></html>'',
            msg_cc = None\<rparr>"
    by (simp add: no_transport_service_def EmailService_init_def)
  have refused: "mail_send_message no_transport_service
      \<lparr>msg_subject = ''Hi'', msg_recipients = [''a@x.edu''], msg_body = ''<html></html>'',
        msg_cc = None\<rparr> = Inl (Exception ''ConnectionRefused'')"
    by (simp add: no_transport_service_def EmailService_init_def)
  note a = send_email_failures
             [where svc = unconfigured_service and rs = "[''a@x.edu'']" and subject = "''Hi''"
                and t = "''reminder''" and ctx = "[]" and cc = None and evs = "[]"
                and username = None and password = "Some ''secret''"
                and gt = "\<lambda>name. Inr html_template" and mk = Inr
                and sm = "\<lambda>message. Inr ()"]
  note b = send_email_failures
             [where svc = no_template_service and rs = "[''a@x.edu'']" and subject = "''Hi''"
                and t = "''reminder''" and ctx = "[]" and cc = None and evs = "[]"
                and raised_in_try = "Exception ''TemplateNotFound''"
                and evs' = "[Get_template ''reminder.html'']"]
  note c = send_email_failures
             [where svc = bad_render_service and rs = "[''a@x.edu'']" and subject = "''Hi''"
                and t = "''reminder''" and ctx = "[]" and cc = None and evs = "[]"
                and tmpl = broken_template and raised_by_render = "Exception ''UndefinedError''"]
  note d = send_email_failures
             [where svc = no_transport_service and rs = "[''a@x.edu'']" and subject = "''Hi''"
                and t = "''reminder''" and ctx = "[]" and cc = None and evs = "[]"
                and tmpl = html_template and html = "''<html></html>''"
                and m = "\<lparr>msg_subject = ''Hi'', msg_recipients = [''a@x.edu''],
                           msg_body = ''<html></html>'', msg_cc = None\<rparr>"
                and raised_by_transport = "Exception ''ConnectionRefused''"]
  have 1: "send_email unconfigured_service [''a@x.edu''] ''Hi'' ''reminder'' [] None [] =
             (False, [Logger_info_disabled [''a@x.edu''] ''Hi''])"
    using a off by simp
  have 2: "send_email (EmailService_init None (Some ''secret'') (\<lambda>name. Inr html_template) Inr
                 (\<lambda>message. Inr ()))
       [''a@x.edu''] ''Hi'' ''reminder'' [] None [] =
     (False, [Logger_info_disabled [''a@x.edu''] ''Hi''])"
    using a creds by simp
  have 3: "send_email no_template_service [''a@x.edu''] ''Hi'' ''reminder'' [] None [] =
     (False, [Get_template ''reminder.html'',
              Logger_error_failed [''a@x.edu''] ''TemplateNotFound''])"
    using b on raised by simp
  have 4: "fst (send_email bad_render_service [''a@x.edu''] ''Hi'' ''reminder'' [] None []) = False"
    using c tmpl render by blast
  have 5: "fst (send_email no_transport_service [''a@x.edu''] ''Hi'' ''reminder'' [] None []) = False"
    using d tmpl' render' mk refused by blast
  from off creds on raised tmpl render refused 1 2 3 4 5 show ?thesis by simp
qed

end
